theory Spec2Isabelle
  imports Complex_Main "HOL-Library.Word"
begin

section \<open>Python values\<close>

text \<open>
  The service is a Python program (\<^verbatim>\<open>src/main.py\<close>). A Python \<^verbatim>\<open>str\<close> is a sequence of
  Unicode code points, so text is a list of code points here; \<open>asc\<close> turns an ASCII
  literal into text. The values that \<^verbatim>\<open>json.loads\<close> and the pattern-based extractor
  hand to the rest of the program are \<open>pyval\<close>s. A float is kept as the rational number
  it denotes (or one of the special values); no float arithmetic is evaluated in the model.

  Characters are written by their code: 34 is the double quote, 92 the backslash, 58 the
  colon, 44 the comma, 123 and 125 the braces, 91 and 93 the brackets, 45 the minus sign,
  46 the full stop, 48 to 57 the digits, 32 the space.
\<close>

type_synonym pystr = "nat list"

definition asc :: "string \<Rightarrow> pystr" where
  "asc s = map of_char s"

datatype pyfloat = Finite rat | NegZero | PosInf | NegInf | NaN

datatype pyval =
    PNone
  | PBool bool
  | PInt int
  | PFloat pyfloat
  | PStr pystr
  | PList "pyval list"
  | PDict "(pystr \<times> pyval) list"

text \<open>Exceptions that the decoding path can raise, each with the value it was raised on.\<close>

datatype exn =
    JSONDecodeError
  | ValueError pystr
  | RecursionError
  | NotIterable pyval
  | BadSubscript pyval pystr
  | KeyError pystr
  | NoAttribute pyval
  | ValidationError "(string \<times> pyval) list"
  | UnicodeDecodeError

text \<open>Truthiness, as \<^verbatim>\<open>if x\<close> and \<^verbatim>\<open>if not x\<close> evaluate it.\<close>

fun truthy :: "pyval \<Rightarrow> bool" where
  "truthy PNone = False"
| "truthy (PBool b) = b"
| "truthy (PInt i) = (i \<noteq> 0)"
| "truthy (PFloat f) = (f \<noteq> Finite 0 \<and> f \<noteq> NegZero)"
| "truthy (PStr s) = (s \<noteq> [])"
| "truthy (PList xs) = (xs \<noteq> [])"
| "truthy (PDict kv) = (kv \<noteq> [])"

section \<open>The runtime\<close>

text \<open>
  What the interpreter, its libraries and the host contribute to one request is a
  parameter of the model:
  \<^item> \<open>py_int\<close> is the builtin \<^verbatim>\<open>int(s)\<close> on text, \<open>None\<close> when it raises \<^verbatim>\<open>ValueError\<close>;
  \<^item> \<open>py_str\<close> is \<^verbatim>\<open>str(v)\<close>;
  \<^item> \<open>unicode_decimal\<close> says which code points from 128 on the regex class \<^verbatim>\<open>\d\<close> accepts;
  \<^item> \<open>float_of_literal\<close> is \<^verbatim>\<open>float(s)\<close> on a JSON number literal;
  \<^item> \<open>fromtimestamp_iso u v\<close> is \<^verbatim>\<open>datetime.fromtimestamp(v).isoformat()\<close> for \<open>u = Seconds\<close>
    and \<^verbatim>\<open>datetime.fromtimestamp(v / 1000).isoformat()\<close> for \<open>u = Milliseconds\<close>, \<open>None\<close>
    when either raises;
  \<^item> \<open>now_iso\<close> is the reading of \<^verbatim>\<open>datetime.now().isoformat()\<close> when an error record is built;
  \<^item> \<open>received_now\<close> and \<open>fresh_uuid\<close> are what the two default factories of the model
    class return for the record built by this request;
  \<^item> \<open>exn_message\<close> is \<^verbatim>\<open>str(e)\<close> of a caught exception;
  \<^item> \<open>coerce_int\<close> and \<open>coerce_str\<close> are what pydantic does with an input that is not of
    the field's own type, \<open>None\<close> when it rejects the input;
  \<^item> \<open>recursion_budget\<close> is the nesting depth that \<^verbatim>\<open>json.loads\<close> can reach before the
    interpreter raises \<^verbatim>\<open>RecursionError\<close>.
\<close>

datatype epoch_unit = Milliseconds | Seconds

record env =
  py_int :: "pystr \<Rightarrow> int option"
  py_str :: "pyval \<Rightarrow> pystr"
  unicode_decimal :: "nat \<Rightarrow> bool"
  float_of_literal :: "pystr \<Rightarrow> pyfloat"
  fromtimestamp_iso :: "epoch_unit \<Rightarrow> pyval \<Rightarrow> pystr option"
  now_iso :: pystr
  received_now :: pystr
  fresh_uuid :: pystr
  exn_message :: "exn \<Rightarrow> pystr"
  coerce_int :: "pyval \<Rightarrow> int option"
  coerce_str :: "pyval \<Rightarrow> pystr option"
  recursion_budget :: nat

section \<open>The data model\<close>

text \<open>
  \<^verbatim>\<open>class BronzeTransHst2(BaseModel)\<close>: 21 optional business fields and two metadata
  fields. The field \<^verbatim>\<open>size\<close> is called \<open>size_fld\<close>, since \<open>size\<close> is taken in HOL.
\<close>

record BronzeTransHst2 =
  authorizer_usrnbr :: "int option"
  creat_time :: "pystr option"
  creat_usrnbr :: "int option"
  data :: "pystr option"
  description :: "pystr option"
  description2 :: "pystr option"
  external_user :: "pystr option"
  four_eye_on :: "int option"
  name :: "pystr option"
  next_seqnbr :: "int option"
  oper :: "int option"
  owner_usrnbr :: "int option"
  protection :: "int option"
  record_id :: "int option"
  seqnbr :: "int option"
  size_fld :: "int option"
  transnbr :: "int option"
  trans_record_type :: "int option"
  updat_time :: "pystr option"
  updat_usrnbr :: "int option"
  version :: "int option"
  received_at :: pystr
  processing_id :: pystr

text \<open>A record with no argument given to the constructor: every business field is \<^verbatim>\<open>None\<close>.\<close>

definition null_record :: "env \<Rightarrow> BronzeTransHst2" where
  "null_record rt =
     \<lparr>authorizer_usrnbr = None, creat_time = None, creat_usrnbr = None, data = None,
      description = None, description2 = None, external_user = None, four_eye_on = None,
      name = None, next_seqnbr = None, oper = None, owner_usrnbr = None, protection = None,
      record_id = None, seqnbr = None, size_fld = None, transnbr = None,
      trans_record_type = None, updat_time = None, updat_usrnbr = None, version = None,
      received_at = received_now rt, processing_id = fresh_uuid rt\<rparr>"

section \<open>Timestamp conversion\<close>

text \<open>
  \<^verbatim>\<open>ConfluentMessageParser._convert_timestamp\<close> (a leading underscore is not an Isabelle
  name, so it is dropped throughout). The test \<^verbatim>\<open>timestamp_value > 1e12\<close> compares the
  value, not its magnitude; \<^verbatim>\<open>bool\<close> is a subclass of \<^verbatim>\<open>int\<close>, so \<^verbatim>\<open>True\<close> is a number too.
\<close>

fun is_number :: "pyval \<Rightarrow> bool" where
  "is_number (PInt i) = True"
| "is_number (PFloat f) = True"
| "is_number (PBool b) = True"
| "is_number v = False"

fun exceeds_1e12 :: "pyval \<Rightarrow> bool" where
  "exceeds_1e12 (PInt i) = (i > 10 ^ 12)"
| "exceeds_1e12 (PFloat (Finite r)) = (r > 10 ^ 12)"
| "exceeds_1e12 (PFloat PosInf) = True"
| "exceeds_1e12 v = False"

definition epoch_unit_of :: "pyval \<Rightarrow> epoch_unit" where
  "epoch_unit_of v = (if exceeds_1e12 v then Milliseconds else Seconds)"

definition convert_timestamp :: "env \<Rightarrow> pyval \<Rightarrow> pystr option" where
  "convert_timestamp rt v =
     (if \<not> truthy v then None
      else case v of
        PStr s \<Rightarrow> Some s
      | _ \<Rightarrow>
         (if is_number v then
            (case fromtimestamp_iso rt (epoch_unit_of v) v of
               Some stamp \<Rightarrow> Some stamp
             | None \<Rightarrow> Some (py_str rt v))
          else Some (py_str rt v)))"

section \<open>The model class\<close>

text \<open>
  Building a \<^verbatim>\<open>BronzeTransHst2\<close> validates every keyword argument against the type of its
  field. \<^verbatim>\<open>None\<close> and a value of the field's own type pass unchanged; for anything else
  pydantic decides (\<open>coerce_int\<close>, \<open>coerce_str\<close>), and when it rejects one argument or more
  the constructor raises a \<^verbatim>\<open>ValidationError\<close> that lists them. A keyword that is not
  given keeps the default \<^verbatim>\<open>None\<close>.
\<close>

definition field_names :: "string list" where
  "field_names =
     [''authorizer_usrnbr'', ''creat_time'', ''creat_usrnbr'', ''data'', ''description'',
      ''description2'', ''external_user'', ''four_eye_on'', ''name'', ''next_seqnbr'', ''oper'',
      ''owner_usrnbr'', ''protection'', ''record_id'', ''seqnbr'', ''size'', ''transnbr'',
      ''trans_record_type'', ''updat_time'', ''updat_usrnbr'', ''version'']"

definition str_fields :: "string list" where
  "str_fields =
     [''creat_time'', ''data'', ''description'', ''description2'', ''external_user'', ''name'',
      ''updat_time'']"

definition validate_int :: "env \<Rightarrow> pyval \<Rightarrow> int option option" where
  "validate_int rt v =
     (case v of
        PNone \<Rightarrow> Some None
      | PInt i \<Rightarrow> Some (Some i)
      | _ \<Rightarrow> (case coerce_int rt v of None \<Rightarrow> None | Some i \<Rightarrow> Some (Some i)))"

definition validate_str :: "env \<Rightarrow> pyval \<Rightarrow> pystr option option" where
  "validate_str rt v =
     (case v of
        PNone \<Rightarrow> Some None
      | PStr s \<Rightarrow> Some (Some s)
      | _ \<Rightarrow> (case coerce_str rt v of None \<Rightarrow> None | Some s \<Rightarrow> Some (Some s)))"

definition rejected :: "env \<Rightarrow> (string \<Rightarrow> pyval) \<Rightarrow> string \<Rightarrow> bool" where
  "rejected rt kw f =
     (if f \<in> set str_fields then validate_str rt (kw f) = None else validate_int rt (kw f) = None)"

definition int_arg :: "env \<Rightarrow> pyval \<Rightarrow> int option" where
  "int_arg rt v = (case validate_int rt v of Some r \<Rightarrow> r | None \<Rightarrow> None)"

definition str_arg :: "env \<Rightarrow> pyval \<Rightarrow> pystr option" where
  "str_arg rt v = (case validate_str rt v of Some r \<Rightarrow> r | None \<Rightarrow> None)"

definition BronzeTransHst2_init :: "env \<Rightarrow> (string \<Rightarrow> pyval) \<Rightarrow> exn + BronzeTransHst2" where
  "BronzeTransHst2_init rt kw =
     (if filter (rejected rt kw) field_names \<noteq> []
      then Inl (ValidationError (map (\<lambda>f. (f, kw f)) (filter (rejected rt kw) field_names)))
      else Inr
        \<lparr>authorizer_usrnbr = int_arg rt (kw ''authorizer_usrnbr''),
         creat_time = str_arg rt (kw ''creat_time''),
         creat_usrnbr = int_arg rt (kw ''creat_usrnbr''),
         data = str_arg rt (kw ''data''),
         description = str_arg rt (kw ''description''),
         description2 = str_arg rt (kw ''description2''),
         external_user = str_arg rt (kw ''external_user''),
         four_eye_on = int_arg rt (kw ''four_eye_on''),
         name = str_arg rt (kw ''name''),
         next_seqnbr = int_arg rt (kw ''next_seqnbr''),
         oper = int_arg rt (kw ''oper''),
         owner_usrnbr = int_arg rt (kw ''owner_usrnbr''),
         protection = int_arg rt (kw ''protection''),
         record_id = int_arg rt (kw ''record_id''),
         seqnbr = int_arg rt (kw ''seqnbr''),
         size_fld = int_arg rt (kw ''size''),
         transnbr = int_arg rt (kw ''transnbr''),
         trans_record_type = int_arg rt (kw ''trans_record_type''),
         updat_time = str_arg rt (kw ''updat_time''),
         updat_usrnbr = int_arg rt (kw ''updat_usrnbr''),
         version = int_arg rt (kw ''version''),
         received_at = received_now rt,
         processing_id = fresh_uuid rt\<rparr>)"

text \<open>Keyword arguments given as a list; a keyword that is not listed is not passed.\<close>

definition kwargs :: "(string \<times> pyval) list \<Rightarrow> string \<Rightarrow> pyval" where
  "kwargs l f = (case map_of l f of Some v \<Rightarrow> v | None \<Rightarrow> PNone)"

section \<open>The JSON decoder\<close>

text \<open>
  \<^verbatim>\<open>json.loads\<close> of the standard library, as its scanner reads a text: whitespace is
  space, tab, line feed and carriage return; a string ends at the next unescaped quote
  and may not hold a control character; \<^verbatim>\<open>\uXXXX\<close> takes four hexadecimal digits, and a
  high surrogate followed by an escaped low surrogate is one code point; a number is
  \<^verbatim>\<open>-?(0|[1-9][0-9]*)(\.[0-9]+)?([eE][-+]?[0-9]+)?\<close>, an \<^verbatim>\<open>int\<close> without fraction and exponent
  and a \<^verbatim>\<open>float\<close> otherwise; \<^verbatim>\<open>NaN\<close>, \<^verbatim>\<open>Infinity\<close> and \<^verbatim>\<open>-Infinity\<close> are accepted. Every
  syntax error is a \<^verbatim>\<open>JSONDecodeError\<close>. Each array or object entered uses one level
  of the recursion budget, and running out of it is a \<^verbatim>\<open>RecursionError\<close>. A parser
  returns the value and the text that follows it.
\<close>

definition is_ascii_digit :: "nat \<Rightarrow> bool" where
  "is_ascii_digit c = (48 \<le> c \<and> c \<le> 57)"

definition json_ws :: "nat \<Rightarrow> bool" where
  "json_ws c = (c = 32 \<or> c = 9 \<or> c = 10 \<or> c = 13)"

definition skip_ws :: "pystr \<Rightarrow> pystr" where
  "skip_ws s = dropWhile json_ws s"

definition hex_digit :: "nat \<Rightarrow> nat option" where
  "hex_digit c =
     (if 48 \<le> c \<and> c \<le> 57 then Some (c - 48)
      else if 97 \<le> c \<and> c \<le> 102 then Some (c - 87)
      else if 65 \<le> c \<and> c \<le> 70 then Some (c - 55)
      else None)"

definition hex4 :: "pystr \<Rightarrow> nat option" where
  "hex4 s =
     (case map hex_digit (take 4 s) of
        [Some a, Some b, Some c, Some d] \<Rightarrow> Some (((a * 16 + b) * 16 + c) * 16 + d)
      | _ \<Rightarrow> None)"

definition backslash_char :: "nat \<Rightarrow> nat option" where
  "backslash_char e =
     (if e = 34 then Some 34 else if e = 92 then Some 92 else if e = 47 then Some 47
      else if e = 98 then Some 8 else if e = 102 then Some 12 else if e = 110 then Some 10
      else if e = 114 then Some 13 else if e = 116 then Some 9 else None)"

definition prepend :: "nat \<Rightarrow> (pystr \<times> pystr) option \<Rightarrow> (pystr \<times> pystr) option" where
  "prepend c r = (case r of None \<Rightarrow> None | Some (content, rest) \<Rightarrow> Some (c # content, rest))"

definition is_high_surrogate :: "nat \<Rightarrow> bool" where
  "is_high_surrogate u = (55296 \<le> u \<and> u \<le> 56319)"

definition is_low_surrogate :: "nat \<Rightarrow> bool" where
  "is_low_surrogate u = (56320 \<le> u \<and> u \<le> 57343)"

definition join_surrogates :: "nat \<Rightarrow> nat \<Rightarrow> nat" where
  "join_surrogates u u2 = 65536 + (u - 55296) * 1024 + (u2 - 56320)"

function scanstring :: "pystr \<Rightarrow> (pystr \<times> pystr) option" where
  "scanstring [] = None"
| "scanstring (c # cs) =
     (if c = 34 then Some ([], cs)
      else if c = 92 then
        (case cs of
           [] \<Rightarrow> None
         | e # es \<Rightarrow>
             if e = 117 then
               (case hex4 es of
                  None \<Rightarrow> None
                | Some uni \<Rightarrow>
                    if is_high_surrogate uni \<and> take 2 (drop 4 es) = [92, 117] then
                      (case hex4 (drop 6 es) of
                         None \<Rightarrow> None
                       | Some uni2 \<Rightarrow>
                           if is_low_surrogate uni2
                           then prepend (join_surrogates uni uni2) (scanstring (drop 10 es))
                           else prepend uni (scanstring (drop 4 es)))
                    else prepend uni (scanstring (drop 4 es)))
             else
               (case backslash_char e of
                  None \<Rightarrow> None
                | Some ch \<Rightarrow> prepend ch (scanstring es)))
      else if c < 32 then None
      else prepend c (scanstring cs))"
  by pat_completeness auto
termination
  by (relation "measure length") auto

text \<open>
  \<open>scanstring\<close> reads from just after the opening quote. What it leaves is shorter than
  what it was given, which the termination of the parser below rests on.
\<close>

lemma scanstring_shorter: "scanstring s = Some (str, rest) \<Longrightarrow> length rest < length s"
proof (induction s arbitrary: str rest rule: scanstring.induct)
  case 1
  then show ?case by simp
next
  case (2 c cs)
  then show ?case
    apply (simp only: scanstring.simps)
    apply (auto simp: prepend_def split: if_splits list.splits option.splits prod.splits)
       apply fastforce+
    done
qed

text \<open>Number literals and the constants.\<close>

definition match_integer :: "pystr \<Rightarrow> (pystr \<times> pystr) option" where
  "match_integer s =
     (case s of
        [] \<Rightarrow> None
      | c # cs \<Rightarrow>
          if c = 48 then Some ([48], cs)
          else if is_ascii_digit c then Some (takeWhile is_ascii_digit s, dropWhile is_ascii_digit s)
          else None)"

definition match_signed_integer :: "pystr \<Rightarrow> (pystr \<times> pystr) option" where
  "match_signed_integer s =
     (case s of
        [] \<Rightarrow> None
      | c # cs \<Rightarrow>
          if c = 45 then
            (case match_integer cs of None \<Rightarrow> None | Some (ds, rest) \<Rightarrow> Some (45 # ds, rest))
          else match_integer s)"

definition match_frac :: "pystr \<Rightarrow> pystr \<times> pystr" where
  "match_frac s =
     (case s of
        [] \<Rightarrow> ([], s)
      | c # cs \<Rightarrow>
          if c = 46 \<and> takeWhile is_ascii_digit cs \<noteq> []
          then (46 # takeWhile is_ascii_digit cs, dropWhile is_ascii_digit cs)
          else ([], s))"

definition match_exp_digits :: "pystr \<Rightarrow> pystr \<Rightarrow> pystr \<Rightarrow> pystr \<times> pystr" where
  "match_exp_digits s mark ds =
     (if takeWhile is_ascii_digit ds \<noteq> []
      then (mark @ takeWhile is_ascii_digit ds, dropWhile is_ascii_digit ds)
      else ([], s))"

definition match_exp :: "pystr \<Rightarrow> pystr \<times> pystr" where
  "match_exp s =
     (case s of
        [] \<Rightarrow> ([], s)
      | c # cs \<Rightarrow>
          if c = 101 \<or> c = 69 then
            (case cs of
               [] \<Rightarrow> ([], s)
             | d # ds \<Rightarrow>
                 if d = 45 \<or> d = 43 then match_exp_digits s [c, d] ds
                 else match_exp_digits s [c] cs)
          else ([], s))"

definition number_value :: "env \<Rightarrow> pystr \<Rightarrow> pystr \<Rightarrow> pystr \<Rightarrow> exn + pyval" where
  "number_value rt ip fp ep =
     (if fp \<noteq> [] \<or> ep \<noteq> [] then Inr (PFloat (float_of_literal rt (ip @ fp @ ep)))
      else case py_int rt ip of
             Some i \<Rightarrow> Inr (PInt i)
           | None \<Rightarrow> Inl (ValueError ip))"

definition with_rest :: "exn + pyval \<Rightarrow> pystr \<Rightarrow> exn + (pyval \<times> pystr)" where
  "with_rest r rest = (case r of Inl e \<Rightarrow> Inl e | Inr v \<Rightarrow> Inr (v, rest))"

definition match_number :: "env \<Rightarrow> pystr \<Rightarrow> (exn + (pyval \<times> pystr)) option" where
  "match_number rt s =
     (case match_signed_integer s of
        None \<Rightarrow> None
      | Some (ip, s1) \<Rightarrow>
          Some (with_rest
                  (number_value rt ip (fst (match_frac s1)) (fst (match_exp (snd (match_frac s1)))))
                  (snd (match_exp (snd (match_frac s1))))))"

definition match_constant :: "env \<Rightarrow> pystr \<Rightarrow> exn + (pyval \<times> pystr)" where
  "match_constant rt s =
     (if take 4 s = asc ''null'' then Inr (PNone, drop 4 s)
      else if take 4 s = asc ''true'' then Inr (PBool True, drop 4 s)
      else if take 5 s = asc ''false'' then Inr (PBool False, drop 5 s)
      else case match_number rt s of
             Some r \<Rightarrow> r
           | None \<Rightarrow>
               if take 3 s = asc ''NaN'' then Inr (PFloat NaN, drop 3 s)
               else if take 8 s = asc ''Infinity'' then Inr (PFloat PosInf, drop 8 s)
               else if take 9 s = asc ''-Infinity'' then Inr (PFloat NegInf, drop 9 s)
               else Inl JSONDecodeError)"

text \<open>\<^verbatim>\<open>dict(pairs)\<close>: a later pair with the same key replaces the value.\<close>

fun dict_set :: "pystr \<Rightarrow> pyval \<Rightarrow> (pystr \<times> pyval) list \<Rightarrow> (pystr \<times> pyval) list" where
  "dict_set k v [] = [(k, v)]"
| "dict_set k v ((k', v') # kvs) = (if k = k' then (k, v) # kvs else (k', v') # dict_set k v kvs)"

definition dict_of_pairs :: "(pystr \<times> pyval) list \<Rightarrow> (pystr \<times> pyval) list" where
  "dict_of_pairs pairs = foldl (\<lambda>d (k, v). dict_set k v d) [] pairs"

text \<open>
  The tests \<open>length rest < length s\<close> in \<open>parse_array\<close> and \<open>parse_object\<close> are there for the
  termination proof only: a value that was parsed has consumed at least one character
  (lemma \<open>parse_shorter\<close> below), so their \<open>else\<close> branches are never taken.
\<close>

function parse_value :: "env \<Rightarrow> nat \<Rightarrow> pystr \<Rightarrow> exn + (pyval \<times> pystr)"
  and parse_array :: "env \<Rightarrow> nat \<Rightarrow> pyval list \<Rightarrow> pystr \<Rightarrow> exn + (pyval \<times> pystr)"
  and parse_object :: "env \<Rightarrow> nat \<Rightarrow> (pystr \<times> pyval) list \<Rightarrow> pystr \<Rightarrow> exn + (pyval \<times> pystr)"
where
  "parse_value rt d [] = Inl JSONDecodeError"
| "parse_value rt d (c # cs) =
     (if c = 34 then
        (case scanstring cs of
           None \<Rightarrow> Inl JSONDecodeError
         | Some (str, rest) \<Rightarrow> Inr (PStr str, rest))
      else if c = 123 then
        (if d = 0 then Inl RecursionError
         else case skip_ws cs of
                [] \<Rightarrow> Inl JSONDecodeError
              | k # ks \<Rightarrow>
                  if k = 125 then Inr (PDict [], ks)
                  else if k = 34 then parse_object rt (d - 1) [] ks
                  else Inl JSONDecodeError)
      else if c = 91 then
        (if d = 0 then Inl RecursionError
         else case skip_ws cs of
                [] \<Rightarrow> Inl JSONDecodeError
              | k # ks \<Rightarrow>
                  if k = 93 then Inr (PList [], ks)
                  else parse_array rt (d - 1) [] (k # ks))
      else match_constant rt (c # cs))"
| "parse_array rt d acc s =
     (case parse_value rt d s of
        Inl e \<Rightarrow> Inl e
      | Inr (v, rest) \<Rightarrow>
          if length rest < length s then
            (case skip_ws rest of
               [] \<Rightarrow> Inl JSONDecodeError
             | k # ks \<Rightarrow>
                 if k = 93 then Inr (PList (acc @ [v]), ks)
                 else if k = 44 then parse_array rt d (acc @ [v]) (skip_ws ks)
                 else Inl JSONDecodeError)
          else Inl JSONDecodeError)"
| "parse_object rt d acc s =
     (case scanstring s of
        None \<Rightarrow> Inl JSONDecodeError
      | Some (key, rest) \<Rightarrow>
          (case skip_ws rest of
             [] \<Rightarrow> Inl JSONDecodeError
           | k # ks \<Rightarrow>
               if k \<noteq> 58 then Inl JSONDecodeError
               else
                 (case parse_value rt d (skip_ws ks) of
                    Inl e \<Rightarrow> Inl e
                  | Inr (v, rest2) \<Rightarrow>
                      if length rest2 < length s then
                        (case skip_ws rest2 of
                           [] \<Rightarrow> Inl JSONDecodeError
                         | k2 # ks2 \<Rightarrow>
                             if k2 = 125 then Inr (PDict (dict_of_pairs (acc @ [(key, v)])), ks2)
                             else if k2 = 44 then
                               (case skip_ws ks2 of
                                  [] \<Rightarrow> Inl JSONDecodeError
                                | q # qs \<Rightarrow>
                                    if q = 34 then parse_object rt d (acc @ [(key, v)]) qs
                                    else Inl JSONDecodeError)
                             else Inl JSONDecodeError)
                      else Inl JSONDecodeError)))"
  by pat_completeness auto

lemma skip_ws_length: "length (skip_ws s) \<le> length s"
  by (simp add: skip_ws_def length_dropWhile_le)

lemma skip_ws_Cons_length: "skip_ws s = k # ks \<Longrightarrow> length ks < length s"
  using skip_ws_length [of s] by simp

termination parse_value
  apply (relation "measure (\<lambda>x. case x of
            Inl (rt, d, s) \<Rightarrow> 2 * length s
          | Inr (Inl (rt, d, acc, s)) \<Rightarrow> 2 * length s + 1
          | Inr (Inr (rt, d, acc, s)) \<Rightarrow> 2 * length s + 1)")
        apply simp
       apply (auto dest!: skip_ws_Cons_length scanstring_shorter)
  using skip_ws_length le_less_trans apply fastforce+
  done

definition json_loads :: "env \<Rightarrow> pystr \<Rightarrow> exn + pyval" where
  "json_loads rt s =
     (if take 1 s = [65279] then Inl JSONDecodeError
      else case parse_value rt (recursion_budget rt) (skip_ws s) of
             Inl e \<Rightarrow> Inl e
           | Inr (v, rest) \<Rightarrow> if skip_ws rest = [] then Inr v else Inl JSONDecodeError)"

section \<open>Pattern search\<close>

text \<open>
  \<^verbatim>\<open>re.search\<close> for the four patterns of \<^verbatim>\<open>extract_value\<close>. They are built from four kinds of
  atoms: a literal character, \<^verbatim>\<open>\s*\<close>, the group \<^verbatim>\<open>(\d+)\<close> and the group \<^verbatim>\<open>([^"]+)\<close>. In these
  patterns a run is always followed by an atom that cannot start with a character of the
  run, so the longest run is the only one that can lead to a match and the matcher needs
  no backtracking. \<^verbatim>\<open>\s\<close> and \<^verbatim>\<open>\d\<close> are the Unicode classes, since the patterns are \<^verbatim>\<open>str\<close>
  patterns. \<open>match_here\<close> returns the text of the group, \<open>search\<close> tries every start from
  the left.
\<close>

definition is_space :: "nat \<Rightarrow> bool" where
  "is_space c =
     ((9 \<le> c \<and> c \<le> 13) \<or> (28 \<le> c \<and> c \<le> 32) \<or> c = 133 \<or> c = 160 \<or> c = 5760 \<or>
      (8192 \<le> c \<and> c \<le> 8202) \<or> c = 8232 \<or> c = 8233 \<or> c = 8239 \<or> c = 8287 \<or> c = 12288)"

definition is_digit :: "env \<Rightarrow> nat \<Rightarrow> bool" where
  "is_digit rt c = (is_ascii_digit c \<or> (128 \<le> c \<and> \<not> is_space c \<and> unicode_decimal rt c))"

datatype atom = Lit nat | Spaces | Digits | NotQuotes

fun match_here :: "env \<Rightarrow> atom list \<Rightarrow> pystr \<Rightarrow> pystr \<Rightarrow> pystr option" where
  "match_here rt [] s g = Some g"
| "match_here rt (Lit c # p) s g =
     (case s of [] \<Rightarrow> None | x # xs \<Rightarrow> if x = c then match_here rt p xs g else None)"
| "match_here rt (Spaces # p) s g = match_here rt p (dropWhile is_space s) g"
| "match_here rt (Digits # p) s g =
     (if takeWhile (is_digit rt) s = [] then None
      else match_here rt p (dropWhile (is_digit rt) s) (takeWhile (is_digit rt) s))"
| "match_here rt (NotQuotes # p) s g =
     (if takeWhile (\<lambda>c. c \<noteq> 34) s = [] then None
      else match_here rt p (dropWhile (\<lambda>c. c \<noteq> 34) s) (takeWhile (\<lambda>c. c \<noteq> 34) s))"

fun search :: "env \<Rightarrow> atom list \<Rightarrow> pystr \<Rightarrow> pystr option" where
  "search rt p [] = match_here rt p [] []"
| "search rt p (c # cs) =
     (case match_here rt p (c # cs) [] of
        Some g \<Rightarrow> Some g
      | None \<Rightarrow> search rt p cs)"

text \<open>
  The four patterns that \<^verbatim>\<open>extract_value\<close> (the function nested in \<^verbatim>\<open>_parse_avro_string\<close>)
  builds for a field name, in its order: the wrapped integer, the wrapped string, the bare
  integer and the bare string. The first pattern that matches anywhere in the text gives
  the value, which becomes an \<^verbatim>\<open>int\<close> when \<^verbatim>\<open>int\<close> can read it and stays a string otherwise.
\<close>

definition quoted :: "pystr \<Rightarrow> atom list" where
  "quoted s = Lit 34 # map Lit s @ [Lit 34]"

definition patterns :: "pystr \<Rightarrow> atom list list" where
  "patterns field_name =
     [quoted field_name @ [Spaces, Lit 58, Spaces, Lit 123, Spaces] @ quoted (asc ''int'') @
        [Spaces, Lit 58, Spaces, Digits, Spaces, Lit 125],
      quoted field_name @ [Spaces, Lit 58, Spaces, Lit 123, Spaces] @ quoted (asc ''string'') @
        [Spaces, Lit 58, Spaces, Lit 34, NotQuotes, Lit 34, Spaces, Lit 125],
      quoted field_name @ [Spaces, Lit 58, Spaces, Digits],
      quoted field_name @ [Spaces, Lit 58, Spaces, Lit 34, NotQuotes, Lit 34]]"

fun first_match :: "env \<Rightarrow> atom list list \<Rightarrow> pystr \<Rightarrow> pystr option" where
  "first_match rt [] s = None"
| "first_match rt (p # ps) s =
     (case search rt p s of
        Some g \<Rightarrow> Some g
      | None \<Rightarrow> first_match rt ps s)"

definition extract_value :: "env \<Rightarrow> pystr \<Rightarrow> string \<Rightarrow> pyval" where
  "extract_value rt avro_string field_name =
     (case first_match rt (patterns (asc field_name)) avro_string of
        None \<Rightarrow> PNone
      | Some v \<Rightarrow> (case py_int rt v of Some i \<Rightarrow> PInt i | None \<Rightarrow> PStr v))"

section \<open>The message parser\<close>

text \<open>
  \<^verbatim>\<open>'value' in json_data\<close>, \<^verbatim>\<open>json_data['value']\<close> and \<^verbatim>\<open>data.get(...)\<close> on whatever value
  \<^verbatim>\<open>json.loads\<close> returned: membership is a key test on a dict, a substring test on a
  string, an element test on a list and a \<^verbatim>\<open>TypeError\<close> on anything else; a string key
  subscripts a dict only; \<^verbatim>\<open>get\<close> exists on a dict only.
\<close>

fun is_substring :: "pystr \<Rightarrow> pystr \<Rightarrow> bool" where
  "is_substring k [] = (k = [])"
| "is_substring k (c # cs) = (take (length k) (c # cs) = k \<or> is_substring k cs)"

fun py_in :: "pystr \<Rightarrow> pyval \<Rightarrow> exn + bool" where
  "py_in k (PDict kv) = Inr (k \<in> set (map fst kv))"
| "py_in k (PStr s) = Inr (is_substring k s)"
| "py_in k (PList xs) = Inr (PStr k \<in> set xs)"
| "py_in k v = Inl (NotIterable v)"

fun py_getitem :: "pyval \<Rightarrow> pystr \<Rightarrow> exn + pyval" where
  "py_getitem (PDict kv) k = (case map_of kv k of Some v \<Rightarrow> Inr v | None \<Rightarrow> Inl (KeyError k))"
| "py_getitem v k = Inl (BadSubscript v k)"

definition dict_get :: "(pystr \<times> pyval) list \<Rightarrow> string \<Rightarrow> pyval" where
  "dict_get kv f = (case map_of kv (asc f) of Some v \<Rightarrow> v | None \<Rightarrow> PNone)"

definition unwrap_envelope :: "pyval \<Rightarrow> exn + pyval" where
  "unwrap_envelope json_data =
     (case py_in (asc ''value'') json_data of
        Inl e \<Rightarrow> Inl e
      | Inr True \<Rightarrow> py_getitem json_data (asc ''value'')
      | Inr False \<Rightarrow>
          (case py_in (asc ''payload'') json_data of
             Inl e \<Rightarrow> Inl e
           | Inr True \<Rightarrow> py_getitem json_data (asc ''payload'')
           | Inr False \<Rightarrow> Inr json_data))"

definition optional_str :: "pystr option \<Rightarrow> pyval" where
  "optional_str r = (case r of None \<Rightarrow> PNone | Some s \<Rightarrow> PStr s)"

text \<open>\<^verbatim>\<open>_parse_json_message\<close>: the two timestamps go through \<open>convert_timestamp\<close>.\<close>

definition json_kwargs :: "env \<Rightarrow> (pystr \<times> pyval) list \<Rightarrow> string \<Rightarrow> pyval" where
  "json_kwargs rt kv f =
     (if f = ''creat_time'' \<or> f = ''updat_time''
      then optional_str (convert_timestamp rt (dict_get kv f))
      else dict_get kv f)"

definition parse_json_message :: "env \<Rightarrow> pyval \<Rightarrow> exn + BronzeTransHst2" where
  "parse_json_message rt json_data =
     (case unwrap_envelope json_data of
        Inl e \<Rightarrow> Inl e
      | Inr (PDict kv) \<Rightarrow> BronzeTransHst2_init rt (json_kwargs rt kv)
      | Inr v \<Rightarrow> Inl (NoAttribute v))"

text \<open>\<^verbatim>\<open>_parse_avro_string\<close>: every field is what \<open>extract_value\<close> finds, as it is.\<close>

definition parse_avro_string :: "env \<Rightarrow> pystr \<Rightarrow> exn + BronzeTransHst2" where
  "parse_avro_string rt avro_string = BronzeTransHst2_init rt (extract_value rt avro_string)"

definition create_error_record :: "env \<Rightarrow> pystr \<Rightarrow> pystr \<Rightarrow> exn + BronzeTransHst2" where
  "create_error_record rt raw_data error_msg =
     BronzeTransHst2_init rt
       (kwargs
          [(''record_id'', PInt (- 1)),
           (''data'', PStr (asc ''PARSE_ERROR: '' @ error_msg)),
           (''description'',
              PStr (take 100 raw_data @ (if length raw_data > 100 then asc ''...'' else []))),
           (''name'', PStr (asc ''PARSING_FAILED'')),
           (''creat_time'', PStr (now_iso rt))])"

text \<open>
  \<^verbatim>\<open>parse_confluent_message\<close>. The inner \<^verbatim>\<open>try\<close> holds \<^verbatim>\<open>json.loads\<close> and
  \<^verbatim>\<open>_parse_json_message\<close>; only a \<^verbatim>\<open>JSONDecodeError\<close> leaves it for the pattern-based
  parser. The outer handler turns any other exception into the error record.
\<close>

definition try_json :: "env \<Rightarrow> pystr \<Rightarrow> exn + BronzeTransHst2" where
  "try_json rt raw_data =
     (case json_loads rt raw_data of
        Inl e \<Rightarrow> Inl e
      | Inr json_data \<Rightarrow> parse_json_message rt json_data)"

definition parse_either :: "env \<Rightarrow> pystr \<Rightarrow> exn + BronzeTransHst2" where
  "parse_either rt raw_data =
     (case try_json rt raw_data of
        Inl JSONDecodeError \<Rightarrow> parse_avro_string rt raw_data
      | r \<Rightarrow> r)"

definition parse_confluent_message :: "env \<Rightarrow> pystr \<Rightarrow> exn + BronzeTransHst2" where
  "parse_confluent_message rt raw_data =
     (case parse_either rt raw_data of
        Inr r \<Rightarrow> Inr r
      | Inl e \<Rightarrow> create_error_record rt raw_data (exn_message rt e))"

section \<open>The wrapped shape\<close>




section \<open>The record store\<close>

text \<open>
  The two module globals \<^verbatim>\<open>record_counter\<close> and \<^verbatim>\<open>bronze_storage\<close>, and what
  \<^verbatim>\<open>receive_bronze_record\<close> does with them once a record is decoded: append, count,
  keep the last ten. \<open>store_record\<close> returns the new state and the \<^verbatim>\<open>total_count\<close> of the
  response.
\<close>

record store =
  record_counter :: int
  bronze_storage :: "BronzeTransHst2 list"

definition empty_store :: store where
  "empty_store = \<lparr>record_counter = 0, bronze_storage = []\<rparr>"

definition last10 :: "'a list \<Rightarrow> 'a list" where
  "last10 xs = drop (length xs - 10) xs"

definition store_record :: "store \<Rightarrow> BronzeTransHst2 \<Rightarrow> store \<times> int" where
  "store_record st r =
     (let appended = bronze_storage st @ [r];
          counter = record_counter st + 1;
          kept = (if length appended > 10 then last10 appended else appended)
      in (\<lparr>record_counter = counter, bronze_storage = kept\<rparr>, counter))"

text \<open>Appending a sequence of records; the totals returned are collected in order.\<close>

fun store_all :: "store \<Rightarrow> BronzeTransHst2 list \<Rightarrow> store \<times> int list" where
  "store_all st [] = (st, [])"
| "store_all st (r # rs) =
     (case store_record st r of (st1, n) \<Rightarrow>
        (case store_all st1 rs of (st2, ns) \<Rightarrow> (st2, n # ns)))"

text \<open>\<^verbatim>\<open>reset_bronze_counters\<close>: returns the cleared state and the count it reports.\<close>

definition reset_bronze_counters :: "store \<Rightarrow> store \<times> int" where
  "reset_bronze_counters st = (\<lparr>record_counter = 0, bronze_storage = []\<rparr>, record_counter st)"

section \<open>The webhook\<close>

text \<open>
  \<^verbatim>\<open>raw_body.decode('utf-8')\<close>: the strict decoder, which rejects a stray or missing
  continuation byte, an overlong form, a surrogate and anything above U+10FFFF.
\<close>

definition is_cont :: "nat \<Rightarrow> bool" where
  "is_cont b = (128 \<le> b \<and> b \<le> 191)"

definition second_of_three :: "nat \<Rightarrow> nat \<Rightarrow> bool" where
  "second_of_three b c =
     (if b = 224 then 160 \<le> c \<and> c \<le> 191 else if b = 237 then 128 \<le> c \<and> c \<le> 159 else is_cont c)"

definition second_of_four :: "nat \<Rightarrow> nat \<Rightarrow> bool" where
  "second_of_four b c =
     (if b = 240 then 144 \<le> c \<and> c \<le> 191 else if b = 244 then 128 \<le> c \<and> c \<le> 143 else is_cont c)"

definition followed_by :: "nat \<Rightarrow> pystr option \<Rightarrow> pystr option" where
  "followed_by c r = (case r of None \<Rightarrow> None | Some s \<Rightarrow> Some (c # s))"

fun decode_units :: "nat list \<Rightarrow> pystr option" where
  "decode_units [] = Some []"
| "decode_units (b # bs) =
     (if b < 128 then followed_by b (decode_units bs)
      else if 194 \<le> b \<and> b \<le> 223 then
        (case bs of
           c1 # rest \<Rightarrow>
             if is_cont c1 then followed_by ((b - 192) * 64 + (c1 - 128)) (decode_units rest)
             else None
         | _ \<Rightarrow> None)
      else if 224 \<le> b \<and> b \<le> 239 then
        (case bs of
           c1 # c2 # rest \<Rightarrow>
             if second_of_three b c1 \<and> is_cont c2
             then followed_by (((b - 224) * 64 + (c1 - 128)) * 64 + (c2 - 128)) (decode_units rest)
             else None
         | _ \<Rightarrow> None)
      else if 240 \<le> b \<and> b \<le> 244 then
        (case bs of
           c1 # c2 # c3 # rest \<Rightarrow>
             if second_of_four b c1 \<and> is_cont c2 \<and> is_cont c3
             then followed_by
                    ((((b - 240) * 64 + (c1 - 128)) * 64 + (c2 - 128)) * 64 + (c3 - 128))
                    (decode_units rest)
             else None
         | _ \<Rightarrow> None)
      else None)"

definition decode_utf8 :: "8 word list \<Rightarrow> pystr option" where
  "decode_utf8 raw_body = decode_units (map unat raw_body)"

text \<open>
  \<^verbatim>\<open>receive_bronze_record\<close>: decode the body, parse it, store the record. Any exception on
  the way is answered with status 400 and leaves the store as it was.
\<close>

datatype http_error = HTTPException nat pystr

record response =
  total_count :: int
  response_record_id :: "int option"
  response_processing_id :: pystr
  response_received_at :: pystr

definition bad_request :: "env \<Rightarrow> exn \<Rightarrow> http_error" where
  "bad_request rt e = HTTPException 400 (asc ''Failed to process record: '' @ exn_message rt e)"

definition receive_bronze_record :: "env \<Rightarrow> store \<Rightarrow> 8 word list \<Rightarrow> store \<times> (http_error + response)" where
  "receive_bronze_record rt st raw_body =
     (case decode_utf8 raw_body of
        None \<Rightarrow> (st, Inl (bad_request rt UnicodeDecodeError))
      | Some raw_data \<Rightarrow>
          (case parse_confluent_message rt raw_data of
             Inl e \<Rightarrow> (st, Inl (bad_request rt e))
           | Inr bronze_record \<Rightarrow>
               (case store_record st bronze_record of
                  (st', n) \<Rightarrow>
                    (st',
                     Inr \<lparr>total_count = n,
                          response_record_id = record_id bronze_record,
                          response_processing_id = processing_id bronze_record,
                          response_received_at = received_at bronze_record\<rparr>))))"

section \<open>Statistics\<close>

text \<open>
  \<^verbatim>\<open>get_bronze_stats\<close>. Both comprehensions filter with the truth value of the field
  (\<^verbatim>\<open>if r.record_id\<close>, \<^verbatim>\<open>if r.creat_usrnbr\<close>), which is false for \<^verbatim>\<open>None\<close> and for \<^verbatim>\<open>0\<close>.
\<close>

record stats =
  total_records :: int
  current_storage :: nat
  unique_record_ids :: nat
  unique_users :: nat
  last_record_id :: "int option"

definition truthy_ints :: "int option list \<Rightarrow> int list" where
  "truthy_ints xs = [i. Some i \<leftarrow> xs, i \<noteq> 0]"

definition get_bronze_stats :: "store \<Rightarrow> stats" where
  "get_bronze_stats st =
     (let record_ids = truthy_ints (map record_id (bronze_storage st));
          unique_users = remdups (truthy_ints (map creat_usrnbr (bronze_storage st)))
      in \<lparr>total_records = record_counter st,
          current_storage = length (bronze_storage st),
          unique_record_ids = (if record_ids \<noteq> [] then length (remdups record_ids) else 0),
          unique_users = length unique_users,
          last_record_id = (if record_ids \<noteq> [] then Some (Max (set record_ids)) else None)\<rparr>)"


section \<open>A sample runtime\<close>

text \<open>
  A concrete runtime to run the model on examples: the clock is frozen, the local zone
  is UTC, \<open>int\<close> and \<open>str\<close> read and print plain decimal numbers, pydantic rejects every
  input that is not of the field's type, and only whole seconds between the years 1970
  and 9999 are converted to a date. The examples hold no float literal and look at no
  exception message, so every float literal is read as \<open>NaN\<close> and every message is the
  word \<open>error\<close>. The theorems below hold for every runtime; this one only supplies the
  concrete inputs.
\<close>

definition decimal_value :: "pystr \<Rightarrow> nat" where
  "decimal_value ds = foldl (\<lambda>acc c. 10 * acc + (c - 48)) 0 ds"

definition plain_int :: "pystr \<Rightarrow> int option" where
  "plain_int s =
     (case s of
        [] \<Rightarrow> None
      | c # cs \<Rightarrow>
          if c = 45 then
            (if cs \<noteq> [] \<and> list_all is_ascii_digit cs then Some (- int (decimal_value cs)) else None)
          else if list_all is_ascii_digit s then Some (int (decimal_value s))
          else None)"

fun show_nat :: "nat \<Rightarrow> pystr" where
  "show_nat n = (if n < 10 then [48 + n] else show_nat (n div 10) @ [48 + n mod 10])"

definition show_int :: "int \<Rightarrow> pystr" where
  "show_int i = (if i < 0 then 45 # show_nat (nat (- i)) else show_nat (nat i))"

definition pad2 :: "nat \<Rightarrow> pystr" where
  "pad2 n = (if n < 10 then 48 # show_nat n else show_nat n)"

definition pad4 :: "nat \<Rightarrow> pystr" where
  "pad4 n = replicate (4 - length (show_nat n)) 48 @ show_nat n"

definition of_month_index :: "nat \<Rightarrow> nat" where
  "of_month_index mp = (if mp < 10 then mp + 3 else mp - 9)"

definition render_date :: "nat \<Rightarrow> nat \<Rightarrow> nat \<Rightarrow> pystr" where
  "render_date y m d = pad4 (y + (if m \<le> 2 then 1 else 0)) @ [45] @ pad2 m @ [45] @ pad2 d"

definition date_of_year_day :: "nat \<Rightarrow> nat \<Rightarrow> nat \<Rightarrow> pystr" where
  "date_of_year_day y doy mp =
     render_date y (of_month_index mp) (doy - (153 * mp + 2) div 5 + 1)"

definition date_of_era_year :: "nat \<Rightarrow> nat \<Rightarrow> nat \<Rightarrow> pystr" where
  "date_of_era_year era doe yoe =
     date_of_year_day (yoe + era * 400) (doe - (365 * yoe + yoe div 4 - yoe div 100))
       ((5 * (doe - (365 * yoe + yoe div 4 - yoe div 100)) + 2) div 153)"

definition date_of_era_day :: "nat \<Rightarrow> nat \<Rightarrow> pystr" where
  "date_of_era_day era doe =
     date_of_era_year era doe ((doe - doe div 1460 + doe div 36524 - doe div 146096) div 365)"

definition date_of_days :: "nat \<Rightarrow> pystr" where
  "date_of_days z = date_of_era_day (z div 146097) (z mod 146097)"

definition time_of_day :: "nat \<Rightarrow> pystr" where
  "time_of_day r = pad2 (r div 3600) @ [58] @ pad2 (r mod 3600 div 60) @ [58] @ pad2 (r mod 60)"

definition utc_iso :: "nat \<Rightarrow> pystr" where
  "utc_iso secs = date_of_days (secs div 86400 + 719468) @ [84] @ time_of_day (secs mod 86400)"

fun sample_fromtimestamp :: "epoch_unit \<Rightarrow> pyval \<Rightarrow> pystr option" where
  "sample_fromtimestamp Seconds (PInt i) =
     (if 0 \<le> i \<and> i < 253402300800 then Some (utc_iso (nat i)) else None)"
| "sample_fromtimestamp Milliseconds (PInt i) =
     (if 0 \<le> i \<and> i < 253402300800000 \<and> i mod 1000 = 0 then Some (utc_iso (nat (i div 1000)))
      else None)"
| "sample_fromtimestamp u v = None"

fun sample_str :: "pyval \<Rightarrow> pystr" where
  "sample_str (PInt i) = show_int i"
| "sample_str (PStr s) = s"
| "sample_str PNone = asc ''None''"
| "sample_str (PBool b) = (if b then asc ''True'' else asc ''False'')"
| "sample_str v = asc ''?''"

definition sample_env :: env where
  "sample_env =
     \<lparr>py_int = plain_int,
      py_str = sample_str,
      unicode_decimal = (\<lambda>c. False),
      float_of_literal = (\<lambda>s. NaN),
      fromtimestamp_iso = sample_fromtimestamp,
      now_iso = asc ''2025-01-01T00:00:00.000001'',
      received_now = asc ''2025-01-01T00:00:00.000002'',
      fresh_uuid = asc ''00000000-0000-4000-8000-000000000000'',
      exn_message = (\<lambda>e. asc ''error''),
      coerce_int = (\<lambda>v. None),
      coerce_str = (\<lambda>v. None),
      recursion_budget = 100\<rparr>"

text \<open>Three texts for the examples below.\<close>

definition long_string_text :: pystr where
  "long_string_text = 34 # replicate 99 97 @ [34]"



text \<open>Whether a value is a \<^verbatim>\<open>dict\<close>, and the record that \<open>create_error_record\<close> builds.\<close>

fun is_dict :: "pyval \<Rightarrow> bool" where
  "is_dict (PDict kv) = True"
| "is_dict v = False"

definition error_record :: "env \<Rightarrow> pystr \<Rightarrow> pystr \<Rightarrow> BronzeTransHst2" where
  "error_record rt raw_data error_msg =
     (null_record rt)
       \<lparr>record_id := Some (- 1),
        data := Some (asc ''PARSE_ERROR: '' @ error_msg),
        description := Some (take 100 raw_data @ (if length raw_data > 100 then asc ''...'' else [])),
        name := Some (asc ''PARSING_FAILED''),
        creat_time := Some (now_iso rt)\<rparr>"

text \<open>Fifteen records that differ in their \<^verbatim>\<open>record_id\<close>, for the examples below.\<close>

definition numbered_record :: "int \<Rightarrow> BronzeTransHst2" where
  "numbered_record i = (null_record sample_env)\<lparr>record_id := Some i\<rparr>"

section \<open>Properties of the record store\<close>

lemma last10_append: "last10 (last10 xs @ ys) = last10 (xs @ ys)"
proof (cases "length xs \<le> 10")
  case True
  then show ?thesis by (simp add: last10_def)
next
  case False
  then have "length xs + length ys - (length xs - 10 + 10) + (length xs - 10) =
             length xs + length ys - 10"
    by arith
  with False show ?thesis by (simp add: last10_def)
qed

lemma store_record_eq:
  "store_record st r =
     (\<lparr>record_counter = record_counter st + 1, bronze_storage = last10 (bronze_storage st @ [r])\<rparr>,
      record_counter st + 1)"
  by (simp add: store_record_def Let_def last10_def)

text \<open>
  After any number of appends the counter has grown by that number, the buffer holds the
  last ten of everything appended to it, and the appends returned the successive totals.
\<close>

lemma store_all_eq:
  "store_all st rs =
     (\<lparr>record_counter = record_counter st + int (length rs),
       bronze_storage = (if rs = [] then bronze_storage st else last10 (bronze_storage st @ rs))\<rparr>,
      map (\<lambda>k. record_counter st + 1 + int k) [0..<length rs])"
proof (induction rs arbitrary: st)
  case Nil
  show ?case by simp
next
  case (Cons r rs)
  have upt: "[0..<Suc (length rs)] = 0 # map Suc [0..<length rs]"
    by (simp only: map_Suc_upt upt_conv_Cons zero_less_Suc)
  show ?case
    by (simp add: store_record_eq Cons.IH last10_append upt comp_def del: upt_Suc)
qed

text \<open>
  C2. Starting from the empty store, fifteen appends leave ten records in the buffer and
  15 in the counter; the buffer is the 6th to the 15th record appended, in arrival order,
  and the appends return 1, 2, ..., 15.
\<close>

theorem fifteen_appends:
  "length rs = 15 \<Longrightarrow>
     store_all empty_store rs =
       (\<lparr>record_counter = 15, bronze_storage = drop 5 rs\<rparr>,
        [1, 2, 3, 4, 5, 6, 7, 8, 9, 10, 11, 12, 13, 14, 15]) \<and>
     length (drop 5 rs) = 10 \<and>
     drop 5 rs = map (\<lambda>k. rs ! k) [5..<15]"
proof -
  assume len: "length rs = 15"
  then have ne: "rs \<noteq> []" by auto
  have "drop 5 (map (\<lambda>k. rs ! k) [0..<length rs]) = map (\<lambda>k. rs ! k) (drop 5 [0..<15])"
    by (simp only: drop_map len)
  then have d: "drop 5 rs = map (\<lambda>k. rs ! k) [5..<15]"
    by (simp only: map_nth drop_upt) simp
  have tot: "map (\<lambda>k. 1 + int k) [0..<15] = [1, 2, 3, 4, 5, 6, 7, 8, 9, 10, 11, 12, 13, 14, 15]"
    by (simp add: upt_rec)
  have st: "store_all empty_store rs =
       (\<lparr>record_counter = 15, bronze_storage = drop 5 rs\<rparr>,
        [1, 2, 3, 4, 5, 6, 7, 8, 9, 10, 11, 12, 13, 14, 15])"
    using len ne tot by (simp add: store_all_eq empty_store_def last10_def del: upt_Suc)
  from st d len show ?thesis by simp
qed

theorem fifteen_appends_witness:
  "length (map numbered_record [1..15]) = 15 \<and>
   store_all empty_store (map numbered_record [1..15]) =
     (\<lparr>record_counter = 15, bronze_storage = map numbered_record [6..15]\<rparr>,
      [1, 2, 3, 4, 5, 6, 7, 8, 9, 10, 11, 12, 13, 14, 15])"
  using fifteen_appends [of "map numbered_record [1..15]"]
  by (simp add: upto_rec_numeral)

section \<open>Properties of the JSON decoder\<close>

text \<open>
  Every parser leaves less text than it was given, so the length tests in \<open>parse_array\<close>
  and \<open>parse_object\<close> always succeed.
\<close>

lemma match_integer_shorter: "match_integer s = Some (ds, r) \<Longrightarrow> length r < length s"
  by (cases s) (auto simp: match_integer_def le_imp_less_Suc length_dropWhile_le split: if_splits)

lemma match_signed_integer_shorter:
  "match_signed_integer s = Some (ds, r) \<Longrightarrow> length r < length s"
  by (cases s)
     (auto simp: match_signed_integer_def split: if_splits option.splits
           dest: match_integer_shorter)

lemma match_frac_shorter: "length (snd (match_frac s)) \<le> length s"
  by (cases s) (auto simp: match_frac_def le_SucI length_dropWhile_le)

lemma match_exp_shorter: "length (snd (match_exp s)) \<le> length s"
  by (cases s)
     (auto simp: match_exp_def match_exp_digits_def le_SucI length_dropWhile_le split: list.splits)

lemma match_number_shorter:
  assumes "match_number rt s = Some (Inr (v, rest))"
  shows "length rest < length s"
proof -
  from assms obtain ip s1 where m: "match_signed_integer s = Some (ip, s1)"
    and r: "rest = snd (match_exp (snd (match_frac s1)))"
    by (auto simp: match_number_def with_rest_def split: option.splits sum.splits)
  have "length rest \<le> length s1"
    using match_exp_shorter [of "snd (match_frac s1)"] match_frac_shorter [of s1] r by simp
  with match_signed_integer_shorter [OF m] show ?thesis by simp
qed

lemma take_eq_length: "take n s = l \<Longrightarrow> length l = n \<Longrightarrow> 0 < n \<Longrightarrow> length (drop n s) < length s"
  by (cases "n \<le> length s") auto

lemma match_constant_shorter:
  assumes "match_constant rt s = Inr (v, rest)"
  shows "length rest < length s"
proof -
  have t: "take n s = asc l \<Longrightarrow> length l = n \<Longrightarrow> 0 < n \<Longrightarrow> length (drop n s) < length s" for n l
    using take_eq_length [of n s "asc l"] by (simp add: asc_def)
  from assms show ?thesis
    by (auto simp: match_constant_def split: if_splits option.splits
             dest: match_number_shorter intro!: t)
qed

lemma parse_shorter:
  "parse_value rt d s = Inr (v, rest) \<Longrightarrow> length rest < length s"
  "parse_array rt d acc s = Inr (v, rest) \<Longrightarrow> length rest < length s"
  "parse_object rt d kvs s = Inr (v, rest) \<Longrightarrow> length rest < length s"
proof (induction rt d s and rt d acc s and rt d kvs s arbitrary: v rest and v rest and v rest
    rule: parse_value_parse_array_parse_object.induct)
  case (1 rt d)
  then show ?case by simp
next
  case (2 rt d c cs)
  show ?case
  proof (cases "c = 34")
    case True
    with "2.prems" show ?thesis
      by (auto split: option.splits dest: scanstring_shorter)
  next
    case nq: False
    show ?thesis
    proof (cases "c = 123")
      case True
      with nq "2.prems" obtain k ks where k: "skip_ws cs = k # ks" "d \<noteq> 0"
        by (auto split: if_splits list.splits)
      show ?thesis
      proof (cases "k = 125")
        case True
        with nq \<open>c = 123\<close> k "2.prems" skip_ws_Cons_length [OF k(1)] show ?thesis by auto
      next
        case False
        with nq \<open>c = 123\<close> k "2.prems" have q: "k = 34" and p: "parse_object rt (d - 1) [] ks = Inr (v, rest)"
          by (auto split: if_splits)
        from "2.IH"(1) [OF nq \<open>c = 123\<close> k(2) k(1) False q p] skip_ws_Cons_length [OF k(1)]
        show ?thesis by simp
      qed
    next
      case nb: False
      show ?thesis
      proof (cases "c = 91")
        case True
        with nq nb "2.prems" obtain k ks where k: "skip_ws cs = k # ks" "d \<noteq> 0"
          by (auto split: if_splits list.splits)
        show ?thesis
        proof (cases "k = 93")
          case True
          with nq nb \<open>c = 91\<close> k "2.prems" skip_ws_Cons_length [OF k(1)] show ?thesis by auto
        next
          case False
          with nq nb \<open>c = 91\<close> k "2.prems" have p: "parse_array rt (d - 1) [] (k # ks) = Inr (v, rest)"
            by (auto split: if_splits)
          from "2.IH"(2) [OF nq nb \<open>c = 91\<close> k(2) k(1) False p] skip_ws_length [of cs] k(1)
          show ?thesis by simp
        qed
      next
        case False
        with nq nb "2.prems" have "match_constant rt (c # cs) = Inr (v, rest)" by simp
        then show ?thesis by (rule match_constant_shorter)
      qed
    qed
  qed
next
  case (3 rt d acc s)
  from "3.prems" obtain v1 r1 where v1: "parse_value rt d s = Inr (v1, r1)"
    by (auto simp: parse_array.simps [of rt d acc s] split: sum.splits)
  from "3.IH"(1) [OF v1] have lt: "length r1 < length s" .
  from "3.prems" v1 lt obtain k ks where k: "skip_ws r1 = k # ks"
    by (auto simp: parse_array.simps [of rt d acc s] split: list.splits)
  show ?case
  proof (cases "k = 93")
    case True
    with "3.prems" v1 lt k skip_ws_Cons_length [OF k] show ?thesis
      by (auto simp: parse_array.simps [of rt d acc s])
  next
    case False
    with "3.prems" v1 lt k have c: "k = 44"
      and p: "parse_array rt d (acc @ [v1]) (skip_ws ks) = Inr (v, rest)"
      by (auto simp: parse_array.simps [of rt d acc s] split: if_splits)
    from "3.IH"(2) [OF v1 refl lt k False c p] skip_ws_length [of ks] skip_ws_Cons_length [OF k] lt
    show ?thesis by simp
  qed
next
  case (4 rt d acc s)
  from "4.prems" obtain key r0 where key: "scanstring s = Some (key, r0)"
    by (auto simp: parse_object.simps [of rt d acc s] split: option.splits)
  from "4.prems" key obtain k ks where k: "skip_ws r0 = k # ks" "k = 58"
    by (auto simp: parse_object.simps [of rt d acc s] split: list.splits if_splits)
  from "4.prems" key k obtain v1 r1 where v1: "parse_value rt d (skip_ws ks) = Inr (v1, r1)"
    and lt: "length r1 < length s"
    by (auto simp: parse_object.simps [of rt d acc s] split: sum.splits if_splits)
  from "4.prems" key k v1 lt obtain k2 ks2 where k2: "skip_ws r1 = k2 # ks2"
    by (auto simp: parse_object.simps [of rt d acc s] split: list.splits)
  show ?case
  proof (cases "k2 = 125")
    case True
    with "4.prems" key k v1 lt k2 skip_ws_Cons_length [OF k2] show ?thesis
      by (auto simp: parse_object.simps [of rt d acc s])
  next
    case False
    with "4.prems" key k v1 lt k2 obtain q qs where q: "k2 = 44" "skip_ws ks2 = q # qs" "q = 34"
      and p: "parse_object rt d (acc @ [(key, v1)]) qs = Inr (v, rest)"
      by (auto simp: parse_object.simps [of rt d acc s] split: if_splits list.splits)
    have kn: "\<not> k \<noteq> 58" using k(2) by simp
    from "4.IH"(2) [OF key refl k(1) kn v1 refl lt k2 False q(1) q(2) q(3) p]
      skip_ws_Cons_length [OF q(2)] skip_ws_Cons_length [OF k2] lt
    show ?thesis by simp
  qed
qed


section \<open>Properties of the decoder\<close>

text \<open>Evaluating the model on a concrete text unfolds these definitions.\<close>

lemmas json_eval = json_loads_def asc_def skip_ws_def json_ws_def match_constant_def
  match_number_def match_signed_integer_def match_integer_def is_ascii_digit_def match_frac_def
  match_exp_def match_exp_digits_def number_value_def with_rest_def prepend_def dict_of_pairs_def

lemmas sample_eval = sample_env_def plain_int_def decimal_value_def

text \<open>The constructor with nothing but \<^verbatim>\<open>None\<close>, and with the arguments of the error record.\<close>

lemmas ctor_defs = BronzeTransHst2_init_def rejected_def validate_int_def validate_str_def
  int_arg_def str_arg_def field_names_def str_fields_def

lemma init_all_none:
  "\<forall>f \<in> set field_names. kw f = PNone \<Longrightarrow> BronzeTransHst2_init rt kw = Inr (null_record rt)"
  by (simp add: ctor_defs null_record_def)

lemma create_error_record_eq:
  "create_error_record rt raw msg = Inr (error_record rt raw msg)"
  by (simp add: create_error_record_def error_record_def ctor_defs kwargs_def null_record_def)

lemma is_space_chars:
  "is_space c \<Longrightarrow> c \<noteq> 34 \<and> c \<noteq> 123 \<and> c \<noteq> 91 \<and> c \<noteq> 110 \<and> c \<noteq> 116 \<and> c \<noteq> 102 \<and>
     c \<noteq> 45 \<and> c \<noteq> 78 \<and> c \<noteq> 73 \<and> c \<noteq> 48 \<and> \<not> is_ascii_digit c \<and> c \<noteq> 65279"
  by (auto simp: is_space_def is_ascii_digit_def)

lemma parse_value_space:
  assumes "is_space c"
  shows "parse_value rt d (c # cs) = Inl JSONDecodeError"
  using is_space_chars [OF assms]
  by (simp add: match_constant_def match_number_def match_signed_integer_def match_integer_def asc_def)

lemma skip_ws_spaces:
  "\<forall>c \<in> set s. is_space c \<Longrightarrow> skip_ws s = [] \<or> (\<exists>c cs. skip_ws s = c # cs \<and> is_space c)"
proof -
  assume a: "\<forall>c \<in> set s. is_space c"
  have "set (skip_ws s) \<subseteq> set s"
    by (simp add: skip_ws_def set_dropWhileD subsetI)
  with a show ?thesis by (cases "skip_ws s") auto
qed

lemma json_loads_blank:
  assumes "\<forall>c \<in> set s. is_space c"
  shows "json_loads rt s = Inl JSONDecodeError"
proof -
  have bom: "take 1 s \<noteq> [65279]"
    using assms is_space_chars by (cases s) auto
  from skip_ws_spaces [OF assms] have "parse_value rt (recursion_budget rt) (skip_ws s) = Inl JSONDecodeError"
    by (auto simp: parse_value_space simp del: parse_value.simps(2))
  with bom show ?thesis by (simp add: json_loads_def)
qed

lemma search_no_quote:
  "34 \<notin> set s \<Longrightarrow> search rt (Lit 34 # p) s = None"
  by (induction s) auto

lemma extract_value_no_quote:
  "34 \<notin> set s \<Longrightarrow> extract_value rt s f = PNone"
  by (simp add: extract_value_def patterns_def quoted_def search_no_quote)

lemma blank_text_null_record:
  assumes "\<forall>c \<in> set raw. is_space c"
  shows "parse_confluent_message rt raw = Inr (null_record rt)"
proof -
  have "34 \<notin> set raw" using assms is_space_chars by blast
  then have "parse_avro_string rt raw = Inr (null_record rt)"
    by (simp add: parse_avro_string_def init_all_none extract_value_no_quote)
  then show ?thesis
    by (simp add: parse_confluent_message_def parse_either_def try_json_def json_loads_blank [OF assms])
qed

lemma parse_confluent_message_cases:
  "parse_confluent_message rt raw =
     (case parse_either rt raw of
        Inr r \<Rightarrow> Inr r
      | Inl e \<Rightarrow> Inr (error_record rt raw (exn_message rt e)))"
  by (simp add: parse_confluent_message_def create_error_record_eq split: sum.splits)

lemma parse_json_message_not_dict:
  "\<not> is_dict j \<Longrightarrow> \<exists>e. parse_json_message rt j = Inl e \<and> e \<noteq> JSONDecodeError"
  by (cases j) (auto simp: parse_json_message_def unwrap_envelope_def split: bool.splits)


text \<open>
  C10. The empty text, and every text made of whitespace only, is decoded to the record
  whose business fields are all \<^verbatim>\<open>None\<close> (its \<^verbatim>\<open>name\<close> too): \<^verbatim>\<open>json.loads\<close> raises a
  \<^verbatim>\<open>JSONDecodeError\<close>, the pattern-based parser runs, and no pattern matches.
\<close>

theorem blank_input_decodes_to_nulls:
  "parse_confluent_message rt [] = Inr (null_record rt) \<and>
   (list_all is_space raw \<longrightarrow> parse_confluent_message rt raw = Inr (null_record rt))"
  using blank_text_null_record [of raw rt] blank_text_null_record [of "[]" rt]
  by (simp add: list_all_iff)

theorem blank_input_decodes_to_nulls_witness:
  "list_all is_space [32, 10, 9] \<and>
   parse_confluent_message sample_env [32, 10, 9] = Inr (null_record sample_env) \<and>
   name (null_record sample_env) = None \<and> record_id (null_record sample_env) = None"
  using blank_input_decodes_to_nulls [of sample_env "[32, 10, 9]"]
  by (simp add: is_space_def null_record_def)

text \<open>
  C1, as the code has it. On every text the decoder returns a record; when the text is
  not JSON and no pattern finds any of the 21 fields, that record is the one with every
  business field \<^verbatim>\<open>None\<close>.
\<close>

theorem decode_total_and_null_without_fields:
  "(\<exists>r. parse_confluent_message rt raw = Inr r) \<and>
   (json_loads rt raw = Inl JSONDecodeError \<and>
    list_all (\<lambda>f. extract_value rt raw f = PNone) field_names \<longrightarrow>
    parse_confluent_message rt raw = Inr (null_record rt))"
proof
  show "\<exists>r. parse_confluent_message rt raw = Inr r"
    by (simp add: parse_confluent_message_cases split: sum.splits)
next
  show "json_loads rt raw = Inl JSONDecodeError \<and>
        list_all (\<lambda>f. extract_value rt raw f = PNone) field_names \<longrightarrow>
        parse_confluent_message rt raw = Inr (null_record rt)"
  proof
    assume a: "json_loads rt raw = Inl JSONDecodeError \<and>
               list_all (\<lambda>f. extract_value rt raw f = PNone) field_names"
    then have "parse_avro_string rt raw = Inr (null_record rt)"
      by (simp add: parse_avro_string_def init_all_none list_all_iff)
    with a show "parse_confluent_message rt raw = Inr (null_record rt)"
      by (simp add: parse_confluent_message_def parse_either_def try_json_def)
  qed
qed

theorem decode_total_and_null_without_fields_witness:
  "(\<exists>r. parse_confluent_message sample_env (asc ''hello'') = Inr r) \<and>
   json_loads sample_env (asc ''hello'') = Inl JSONDecodeError \<and>
   list_all (\<lambda>f. extract_value sample_env (asc ''hello'') f = PNone) field_names \<and>
   parse_confluent_message sample_env (asc ''hello'') = Inr (null_record sample_env)"
proof -
  have j: "json_loads sample_env (asc ''hello'') = Inl JSONDecodeError"
    by (simp add: json_eval)
  have "34 \<notin> set (asc ''hello'')"
    by (simp add: asc_def)
  then have x: "list_all (\<lambda>f. extract_value sample_env (asc ''hello'') f = PNone) field_names"
    by (simp add: extract_value_no_quote list_all_iff)
  from j x decode_total_and_null_without_fields [of sample_env "asc ''hello''"]
  show ?thesis by simp
qed

text \<open>
  C1 as stated fails at the empty text: neither parser recovers a field, and the record
  returned is not the \<^verbatim>\<open>PARSING_FAILED\<close> one.
\<close>

theorem empty_text_is_not_parsing_failed:
  "json_loads sample_env [] = Inl JSONDecodeError \<and>
   list_all (\<lambda>f. extract_value sample_env [] f = PNone) field_names \<and>
   parse_confluent_message sample_env [] = Inr (null_record sample_env) \<and>
   name (null_record sample_env) \<noteq> Some (asc ''PARSING_FAILED'') \<and>
   record_id (null_record sample_env) \<noteq> Some (- 1)"
  by (simp add: json_loads_blank blank_text_null_record extract_value_no_quote list_all_iff
      null_record_def)

text \<open>
  C9. When the text is valid JSON but not an object, the envelope test or the first
  \<^verbatim>\<open>data.get\<close> raises, and the decoder returns the error record: \<^verbatim>\<open>record_id\<close> is -1 and
  \<^verbatim>\<open>name\<close> is \<^verbatim>\<open>PARSING_FAILED\<close>, and it is not the record with every field \<^verbatim>\<open>None\<close>.
\<close>

theorem non_object_json_is_parsing_failed:
  assumes "json_loads rt raw = Inr j" and "\<not> is_dict j"
  shows "\<exists>r. parse_confluent_message rt raw = Inr r \<and> record_id r = Some (- 1) \<and>
             name r = Some (asc ''PARSING_FAILED'') \<and> r \<noteq> null_record rt"
proof -
  from assms(2) obtain e where e: "parse_json_message rt j = Inl e" "e \<noteq> JSONDecodeError"
    using parse_json_message_not_dict by blast
  then have "parse_either rt raw = Inl e"
    using assms(1) by (cases e) (simp_all add: parse_either_def try_json_def)
  then have "parse_confluent_message rt raw = Inr (error_record rt raw (exn_message rt e))"
    by (simp add: parse_confluent_message_cases)
  then show ?thesis
    by (simp add: error_record_def null_record_def)
qed

theorem non_object_json_is_parsing_failed_witness:
  "json_loads sample_env (asc ''5'') = Inr (PInt 5) \<and> \<not> is_dict (PInt 5) \<and>
   (\<exists>r. parse_confluent_message sample_env (asc ''5'') = Inr r \<and> record_id r = Some (- 1) \<and>
        name r = Some (asc ''PARSING_FAILED'') \<and> r \<noteq> null_record sample_env) \<and>
   json_loads sample_env (asc ''\"value\"'') = Inr (PStr (asc ''value'')) \<and>
   (\<exists>r. parse_confluent_message sample_env (asc ''\"value\"'') = Inr r \<and> record_id r = Some (- 1) \<and>
        name r = Some (asc ''PARSING_FAILED'')) \<and>
   json_loads sample_env (asc ''[1, 2]'') = Inr (PList [PInt 1, PInt 2]) \<and>
   (\<exists>r. parse_confluent_message sample_env (asc ''[1, 2]'') = Inr r \<and> record_id r = Some (- 1) \<and>
        name r = Some (asc ''PARSING_FAILED'')) \<and>
   json_loads sample_env (asc ''true'') = Inr (PBool True) \<and>
   (\<exists>r. parse_confluent_message sample_env (asc ''true'') = Inr r \<and> record_id r = Some (- 1) \<and>
        name r = Some (asc ''PARSING_FAILED''))"
proof -
  have j1: "json_loads sample_env (asc ''5'') = Inr (PInt 5)"
    and j2: "json_loads sample_env (asc ''\"value\"'') = Inr (PStr (asc ''value''))"
    and j3: "json_loads sample_env (asc ''[1, 2]'') = Inr (PList [PInt 1, PInt 2])"
    and j4: "json_loads sample_env (asc ''true'') = Inr (PBool True)"
    by (simp_all add: json_eval sample_eval)
  from j1 non_object_json_is_parsing_failed [OF j1]
    non_object_json_is_parsing_failed [OF j2]
    non_object_json_is_parsing_failed [OF j3]
    non_object_json_is_parsing_failed [OF j4]
  have "(\<exists>r. parse_confluent_message sample_env (asc ''5'') = Inr r \<and> record_id r = Some (- 1) \<and>
        name r = Some (asc ''PARSING_FAILED'') \<and> r \<noteq> null_record sample_env)"
    and "(\<exists>r. parse_confluent_message sample_env (asc ''\"value\"'') = Inr r \<and> record_id r = Some (- 1) \<and>
        name r = Some (asc ''PARSING_FAILED''))"
    and "(\<exists>r. parse_confluent_message sample_env (asc ''[1, 2]'') = Inr r \<and> record_id r = Some (- 1) \<and>
        name r = Some (asc ''PARSING_FAILED''))"
    and "(\<exists>r. parse_confluent_message sample_env (asc ''true'') = Inr r \<and> record_id r = Some (- 1) \<and>
        name r = Some (asc ''PARSING_FAILED''))"
    by auto
  with j1 j2 j3 j4 show ?thesis by simp
qed


text \<open>
  C3, as the code has it. Whenever an exception leaves the two parsers inside
  \<^verbatim>\<open>parse_confluent_message\<close>, the result is the error record: \<^verbatim>\<open>record_id\<close> -1, \<^verbatim>\<open>name\<close>
  \<^verbatim>\<open>PARSING_FAILED\<close>, \<^verbatim>\<open>data\<close> the message of the exception after \<^verbatim>\<open>PARSE_ERROR: \<close>,
  \<^verbatim>\<open>description\<close> the first 100 characters of the text, followed by three dots exactly
  when the text is longer, \<^verbatim>\<open>creat_time\<close> the current time, and every other business
  field \<^verbatim>\<open>None\<close>.
\<close>

theorem failure_gives_error_record:
  "parse_either rt raw = Inl e \<Longrightarrow>
   parse_confluent_message rt raw =
     Inr ((null_record rt)
            \<lparr>record_id := Some (- 1),
             data := Some (asc ''PARSE_ERROR: '' @ exn_message rt e),
             description := Some (take 100 raw @ (if 100 < length raw then asc ''...'' else [])),
             name := Some (asc ''PARSING_FAILED''),
             creat_time := Some (now_iso rt)\<rparr>)"
  by (simp add: parse_confluent_message_cases error_record_def)

text \<open>A JSON string of 101 characters, for the truncation of the description.\<close>

lemma rep99:
  "replicate 99 (97::nat) =
     [97, 97, 97, 97, 97, 97, 97, 97, 97, 97, 97, 97, 97, 97, 97, 97, 97, 97, 97, 97,
      97, 97, 97, 97, 97, 97, 97, 97, 97, 97, 97, 97, 97, 97, 97, 97, 97, 97, 97, 97,
      97, 97, 97, 97, 97, 97, 97, 97, 97, 97, 97, 97, 97, 97, 97, 97, 97, 97, 97, 97,
      97, 97, 97, 97, 97, 97, 97, 97, 97, 97, 97, 97, 97, 97, 97, 97, 97, 97, 97, 97,
      97, 97, 97, 97, 97, 97, 97, 97, 97, 97, 97, 97, 97, 97, 97, 97, 97, 97, 97]"
  by (simp add: numeral_eq_Suc)

lemma long_string_text_json: "json_loads sample_env long_string_text = Inr (PStr (replicate 99 97))"
  by (simp add: long_string_text_def json_loads_def skip_ws_def json_ws_def prepend_def rep99)

lemma long_string_text_fails:
  "parse_either sample_env long_string_text = Inl (NoAttribute (PStr (replicate 99 97)))"
  by (simp add: parse_either_def try_json_def long_string_text_json parse_json_message_def unwrap_envelope_def rep99 asc_def)

theorem failure_gives_error_record_witness:
  "parse_either sample_env (asc ''5'') = Inl (NotIterable (PInt 5)) \<and>
   parse_confluent_message sample_env (asc ''5'') =
     Inr ((null_record sample_env)
            \<lparr>record_id := Some (- 1),
             data := Some (asc ''PARSE_ERROR: error''),
             description := Some (asc ''5''),
             name := Some (asc ''PARSING_FAILED''),
             creat_time := Some (asc ''2025-01-01T00:00:00.000001'')\<rparr>) \<and>
   length long_string_text = 101 \<and>
   parse_either sample_env long_string_text = Inl (NoAttribute (PStr (replicate 99 97))) \<and>
   parse_confluent_message sample_env long_string_text =
     Inr ((null_record sample_env)
            \<lparr>record_id := Some (- 1),
             data := Some (asc ''PARSE_ERROR: error''),
             description := Some (34 # replicate 99 97 @ asc ''...''),
             name := Some (asc ''PARSING_FAILED''),
             creat_time := Some (asc ''2025-01-01T00:00:00.000001'')\<rparr>)"
proof -
  have j: "json_loads sample_env (asc ''5'') = Inr (PInt 5)"
    by (simp add: json_eval sample_eval)
  then have p5: "parse_either sample_env (asc ''5'') = Inl (NotIterable (PInt 5))"
    by (simp add: parse_either_def try_json_def parse_json_message_def unwrap_envelope_def)
  have l: "length long_string_text = 101" "take 100 long_string_text = 34 # replicate 99 97"
    by (simp_all add: long_string_text_def)
  from p5 failure_gives_error_record [of sample_env "asc ''5''" "NotIterable (PInt 5)"]
  have a: "parse_confluent_message sample_env (asc ''5'') =
     Inr ((null_record sample_env)
            \<lparr>record_id := Some (- 1),
             data := Some (asc ''PARSE_ERROR: error''),
             description := Some (asc ''5''),
             name := Some (asc ''PARSING_FAILED''),
             creat_time := Some (asc ''2025-01-01T00:00:00.000001'')\<rparr>)"
    by (simp add: sample_env_def asc_def)
  from long_string_text_fails failure_gives_error_record [of sample_env long_string_text "NoAttribute (PStr (replicate 99 97))"]
  have b: "parse_confluent_message sample_env long_string_text =
     Inr ((null_record sample_env)
            \<lparr>record_id := Some (- 1),
             data := Some (asc ''PARSE_ERROR: error''),
             description := Some (34 # replicate 99 97 @ asc ''...''),
             name := Some (asc ''PARSING_FAILED''),
             creat_time := Some (asc ''2025-01-01T00:00:00.000001'')\<rparr>)"
    by (simp add: l sample_env_def asc_def)
  from p5 a l(1) long_string_text_fails b show ?thesis by simp
qed

text \<open>
  C3 as stated names a text decode failure among the failures that give an error record.
  The body is decoded in the handler, before the parser is called: a body that is not
  UTF-8 is answered with status 400, and no record is built or stored.
\<close>

theorem undecodable_body_is_rejected:
  "receive_bronze_record sample_env empty_store [0xFF] =
     (empty_store, Inl (HTTPException 400 (asc ''Failed to process record: error'')))"
  by (simp add: receive_bronze_record_def decode_utf8_def bad_request_def sample_env_def asc_def)

section \<open>Properties of the pattern search\<close>





























text \<open>
  The pattern-based parser does not convert timestamps: for a wrapped integer in a
  timestamp field it extracts the integer, which the structured parser never passes on.
\<close>

lemma structured_timestamp_is_no_integer:
  "json_kwargs rt [(asc ''creat_time'', PInt n)] ''creat_time'' \<noteq> PInt n"
  by (simp add: json_kwargs_def optional_str_def split: option.splits)

section \<open>Properties of the statistics\<close>

text \<open>
  What the statistics compute: the number of distinct record ids and of distinct creators
  among the fields that are neither \<^verbatim>\<open>None\<close> nor 0, and the largest such record id.
\<close>

lemma stats_sets:
  "set (truthy_ints xs) = {i. i \<noteq> 0 \<and> Some i \<in> set xs}"
  by (auto simp: truthy_ints_def)

lemma stats_counts:
  "unique_record_ids (get_bronze_stats st) =
     card {i. i \<noteq> 0 \<and> Some i \<in> record_id ` set (bronze_storage st)} \<and>
   unique_users (get_bronze_stats st) =
     card {i. i \<noteq> 0 \<and> Some i \<in> creat_usrnbr ` set (bronze_storage st)} \<and>
   last_record_id (get_bronze_stats st) =
     (if {i. i \<noteq> 0 \<and> Some i \<in> record_id ` set (bronze_storage st)} = {} then None
      else Some (Max {i. i \<noteq> 0 \<and> Some i \<in> record_id ` set (bronze_storage st)}))"
proof -
  let ?ids = "truthy_ints (map record_id (bronze_storage st))"
  let ?S = "{i. i \<noteq> 0 \<and> Some i \<in> record_id ` set (bronze_storage st)}"
  have s: "set ?ids = ?S"
    by (simp add: stats_sets)
  show ?thesis
  proof (cases "?ids = []")
    case True
    with s have e: "?S = {}" by simp
    then have c: "card ?S = 0" by (simp only: card.empty)
    from True e c show ?thesis
      by (simp add: get_bronze_stats_def Let_def length_remdups_card_conv stats_sets)
  next
    case False
    then have "set ?ids \<noteq> {}" by simp
    then have ne: "?S \<noteq> {}" unfolding s .
    from False ne show ?thesis
      by (simp add: get_bronze_stats_def Let_def length_remdups_card_conv stats_sets)
  qed
qed

text \<open>
  C4. The statistics are meant to count the distinct record ids and creators that are
  present, and to report the largest record id. A record whose \<^verbatim>\<open>record_id\<close> and
  \<^verbatim>\<open>creat_usrnbr\<close> are 0 is left out of all three: after the body
  \<^verbatim>\<open>{"record_id": 0, "creat_usrnbr": 0}\<close> has been received by the empty store, the counts
  are 0 and no last id is reported.
\<close>

theorem stats_ignore_zero:
  "get_bronze_stats
     (fst (receive_bronze_record sample_env empty_store
             (map of_char ''{\"record_id\": 0, \"creat_usrnbr\": 0}''))) =
   \<lparr>total_records = 1, current_storage = 1, unique_record_ids = 0, unique_users = 0,
    last_record_id = None\<rparr>"
  by (simp add: receive_bronze_record_def decode_utf8_def followed_by_def json_eval sample_eval
      parse_confluent_message_def parse_either_def try_json_def parse_json_message_def
      unwrap_envelope_def ctor_defs json_kwargs_def dict_get_def convert_timestamp_def optional_str_def
      store_record_def empty_store_def get_bronze_stats_def truthy_ints_def)


section \<open>Properties of the timestamp conversion\<close>

text \<open>
  C5, as the code has it. \<^verbatim>\<open>None\<close> is mapped to \<^verbatim>\<open>None\<close> and every string that is not empty
  is returned unchanged; the empty string is mapped to \<^verbatim>\<open>None\<close>, by the guard
  \<^verbatim>\<open>if not timestamp_value\<close>.
\<close>

theorem convert_timestamp_null_and_strings:
  "convert_timestamp rt PNone = None \<and>
   (s \<noteq> [] \<longrightarrow> convert_timestamp rt (PStr s) = Some s) \<and>
   convert_timestamp rt (PStr []) = None"
  by (simp add: convert_timestamp_def)

theorem convert_timestamp_null_and_strings_witness:
  "convert_timestamp sample_env PNone = None \<and>
   asc ''2024-01-01'' \<noteq> [] \<and>
   convert_timestamp sample_env (PStr (asc ''2024-01-01'')) = Some (asc ''2024-01-01'') \<and>
   convert_timestamp sample_env (PStr []) = None"
  using convert_timestamp_null_and_strings [of sample_env "asc ''2024-01-01''"]
  by (simp add: asc_def)

text \<open>C5 as stated fails at the empty string, which is not returned unchanged.\<close>

theorem empty_string_not_kept: "convert_timestamp sample_env (PStr []) \<noteq> Some []"
  by (simp add: convert_timestamp_def)

text \<open>
  C6, as the code has it. A number other than zero (an \<^verbatim>\<open>int\<close>, a \<^verbatim>\<open>float\<close> or \<^verbatim>\<open>True\<close>) is
  read as milliseconds when the value itself exceeds \<open>10\<^sup>1\<^sup>2\<close> and as seconds otherwise;
  the result is the rendering of that instant, or \<^verbatim>\<open>str\<close> of the number when the conversion
  raises. The second part says it for an integer \<open>i\<close>. The result type of
  \<open>convert_timestamp\<close> is an optional string on every path: no exception leaves it.
\<close>

theorem convert_timestamp_numbers:
  "(is_number v \<and> truthy v \<longrightarrow>
      convert_timestamp rt v =
        Some (case fromtimestamp_iso rt (if exceeds_1e12 v then Milliseconds else Seconds) v of
                Some stamp \<Rightarrow> stamp
              | None \<Rightarrow> py_str rt v)) \<and>
   (i \<noteq> 0 \<longrightarrow>
      convert_timestamp rt (PInt i) =
        Some (case fromtimestamp_iso rt (if 10 ^ 12 < i then Milliseconds else Seconds) (PInt i) of
                Some stamp \<Rightarrow> stamp
              | None \<Rightarrow> py_str rt (PInt i)))"
proof (intro conjI impI)
  assume "is_number v \<and> truthy v"
  then show "convert_timestamp rt v =
        Some (case fromtimestamp_iso rt (if exceeds_1e12 v then Milliseconds else Seconds) v of
                Some stamp \<Rightarrow> stamp
              | None \<Rightarrow> py_str rt v)"
    by (cases v) (auto simp: convert_timestamp_def epoch_unit_of_def split: option.splits)
next
  assume "i \<noteq> 0"
  then show "convert_timestamp rt (PInt i) =
        Some (case fromtimestamp_iso rt (if 10 ^ 12 < i then Milliseconds else Seconds) (PInt i) of
                Some stamp \<Rightarrow> stamp
              | None \<Rightarrow> py_str rt (PInt i))"
    by (simp add: convert_timestamp_def epoch_unit_of_def split: option.splits)
qed

lemmas calendar_eval = utc_iso_def date_of_days_def date_of_era_day_def date_of_era_year_def
  date_of_year_day_def render_date_def of_month_index_def time_of_day_def pad2_def pad4_def

theorem convert_timestamp_numbers_witness:
  "is_number (PInt 1700000000000) \<and> truthy (PInt 1700000000000) \<and>
   convert_timestamp sample_env (PInt 1700000000000) = Some (asc ''2023-11-14T22:13:20'') \<and>
   convert_timestamp sample_env (PInt 1700000000) = Some (asc ''2023-11-14T22:13:20'') \<and>
   convert_timestamp sample_env (PInt (- 2000000000000)) = Some (asc ''-2000000000000'')"
proof -
  have a: "convert_timestamp sample_env (PInt 1700000000000) = Some (asc ''2023-11-14T22:13:20'')"
    using convert_timestamp_numbers [of "PInt 1700000000000" sample_env 1]
    by (simp add: sample_env_def calendar_eval asc_def)
  have b: "convert_timestamp sample_env (PInt 1700000000) = Some (asc ''2023-11-14T22:13:20'')"
    using convert_timestamp_numbers [of PNone sample_env 1700000000]
    by (simp add: sample_env_def calendar_eval asc_def)
  have c: "convert_timestamp sample_env (PInt (- 2000000000000)) = Some (asc ''-2000000000000'')"
    using convert_timestamp_numbers [of PNone sample_env "- 2000000000000"]
    by (simp add: sample_env_def show_int_def asc_def)
  from a b c show ?thesis by simp
qed

text \<open>
  C6 as stated fails at \<open>-2\<cdot>10\<^sup>1\<^sup>2\<close>: its magnitude exceeds \<open>10\<^sup>1\<^sup>2\<close>, and the code reads it
  as seconds.
\<close>

theorem negative_millis_read_as_seconds:
  "\<bar>- 2000000000000 :: int\<bar> > 10 ^ 12 \<and> epoch_unit_of (PInt (- 2000000000000)) \<noteq> Milliseconds"
  by (simp add: epoch_unit_of_def)

end
